theory Spec2Isabelle
  imports Complex_Main
begin

section \<open>Python values and exceptions\<close>

text \<open>
  The service receives its arguments as decoded JSON: \<open>None\<close>, booleans, integers,
  floats, strings, lists and dictionaries with string keys. Integers are Python's
  unbounded \<open>int\<close>. The payload of a float plays no part in the code paths below; only the
  fact that it is a float does. \<open>VObj\<close> stands for the opaque objects bound at module level
  (imported modules and classes).
\<close>

datatype pyvalue =
    VNone
  | VBool bool
  | VInt int
  | VFloat rat
  | VStr string
  | VList "pyvalue list"
  | VDict "(string \<times> pyvalue) list"
  | VObj string

type_synonym pydict = "(string \<times> pyvalue) list"

text \<open>
  Every exception the code can raise is a value. \<open>KeyError\<close> carries the key,
  \<open>NameError\<close> and \<open>AttributeError\<close> the name that could not be resolved, \<open>ValueError\<close>
  the message given in the source, \<open>ServerError\<close> whatever a remote service reported.
  \<open>RecursionError\<close> is what the interpreter raises when a call nests deeper than its
  recursion limit.
\<close>

datatype pyerror =
    KeyError pyvalue
  | IndexError
  | ValueError string
  | TypeError
  | NameError string
  | AttributeError string
  | ZeroDivisionError
  | IOError string
  | ServerError string
  | RecursionError

type_synonym 'a result = "pyerror + 'a"

definition bind_e :: "'a result \<Rightarrow> ('a \<Rightarrow> 'b result) \<Rightarrow> 'b result" where
  "bind_e m f = (case m of Inl e \<Rightarrow> Inl e | Inr a \<Rightarrow> f a)"

text \<open>\<^verbatim>\<open>k in d\<close> and \<^verbatim>\<open>d[k]\<close> for a dictionary \<open>d\<close> and a string key \<open>k\<close>.\<close>

definition py_in :: "string \<Rightarrow> pydict \<Rightarrow> bool" where
  "py_in k d = (map_of d k \<noteq> None)"

definition dict_get :: "pydict \<Rightarrow> string \<Rightarrow> pyvalue result" where
  "dict_get d k = (case map_of d k of None \<Rightarrow> Inl (KeyError (VStr k)) | Some v \<Rightarrow> Inr v)"

text \<open>
  \<^verbatim>\<open>isinstance(v, int)\<close>: \<open>bool\<close> is a subclass of \<open>int\<close>, so it holds of \<open>True\<close> and
  \<open>False\<close> too. \<^verbatim>\<open>type(v) != list\<close> compares the exact type.
\<close>

fun isinstance_int :: "pyvalue \<Rightarrow> bool" where
  "isinstance_int (VInt i) = True"
| "isinstance_int (VBool b) = True"
| "isinstance_int v = False"

fun type_is_list :: "pyvalue \<Rightarrow> bool" where
  "type_is_list (VList xs) = True"
| "type_is_list v = False"

fun isinstance_dict :: "pyvalue \<Rightarrow> bool" where
  "isinstance_dict (VDict d) = True"
| "isinstance_dict v = False"

section \<open>Parameter validation\<close>

text \<open>
  The checks of \<^verbatim>\<open>process_params\<close>, lines 53 to 65, in the order of the source; the
  first one that fails raises its \<open>ValueError\<close>. The loop of lines 66 and 67, which logs
  every channel once the checks have passed, is added by \<open>process_params_with_log\<close>
  below.
\<close>

definition process_params :: "pydict \<Rightarrow> unit result" where
  "process_params params =
    (if \<not> py_in ''workspace_name'' params then
       Inl (ValueError ''a string reprsenting workspace_name parameter is required'')
     else if \<not> py_in ''out_folder'' params then
       Inl (ValueError ''a string reprsenting out_folder parameter is required'')
     else if \<not> py_in ''hash_length'' params then
       Inl (ValueError ''an integerreprsenting  hash_length parameter is required'')
     else
       bind_e (if py_in ''hash_length'' params then
                 bind_e (dict_get params ''hash_length'') (\<lambda>h.
                   if \<not> isinstance_int h then
                     Inl (ValueError ''hash_length must be of type int'')
                   else Inr ())
               else Inr ()) (\<lambda>_.
       if \<not> py_in ''reads_channels'' params then
         Inl (ValueError ''key-val pairs representing the reads_channels parameter is required'')
       else
         bind_e (dict_get params ''reads_channels'') (\<lambda>rcs.
           if \<not> type_is_list rcs then Inl (ValueError ''reads_channels must be a list'')
           else Inr ())))"

text \<open>The params object has an entry of the given kind under a key.\<close>

definition has_int :: "pydict \<Rightarrow> string \<Rightarrow> bool" where
  "has_int d k = (case map_of d k of Some v \<Rightarrow> isinstance_int v | None \<Rightarrow> False)"

definition has_list :: "pydict \<Rightarrow> string \<Rightarrow> bool" where
  "has_list d k = (case map_of d k of Some v \<Rightarrow> type_is_list v | None \<Rightarrow> False)"

section \<open>Built-in operations used by the service\<close>

text \<open>
  \<^verbatim>\<open>v[k]\<close> on an arbitrary value. A dictionary (whose keys are strings) raises
  \<open>KeyError\<close> for a key it does not hold and \<open>TypeError\<close> for an unhashable key; a list or a
  string is indexed by an integer, negative indices counting from the end; nothing else
  can be subscripted.
\<close>

definition seq_index :: "'a list \<Rightarrow> int \<Rightarrow> 'a result" where
  "seq_index xs i =
    (if 0 \<le> i \<and> i < int (length xs) then Inr (xs ! nat i)
     else if - int (length xs) \<le> i \<and> i < 0 then Inr (xs ! nat (int (length xs) + i))
     else Inl IndexError)"

fun subscript :: "pyvalue \<Rightarrow> pyvalue \<Rightarrow> pyvalue result" where
  "subscript (VDict d) (VStr k) = dict_get d k"
| "subscript (VDict d) (VList xs) = Inl TypeError"
| "subscript (VDict d) (VDict e) = Inl TypeError"
| "subscript (VDict d) k = Inl (KeyError k)"
| "subscript (VList xs) (VInt i) = seq_index xs i"
| "subscript (VList xs) (VBool b) = seq_index xs (if b then 1 else 0)"
| "subscript (VStr s) (VInt i) = bind_e (seq_index s i) (\<lambda>c. Inr (VStr [c]))"
| "subscript (VStr s) (VBool b) =
     bind_e (seq_index s (if b then 1 else 0)) (\<lambda>c. Inr (VStr [c]))"
| "subscript v k = Inl TypeError"

text \<open>\<^verbatim>\<open>for x in v\<close>: the items a value yields when it is iterated.\<close>

fun py_iter :: "pyvalue \<Rightarrow> pyvalue list result" where
  "py_iter (VList xs) = Inr xs"
| "py_iter (VStr s) = Inr (map (\<lambda>c. VStr [c]) s)"
| "py_iter (VDict d) = Inr (map (\<lambda>kv. VStr (fst kv)) d)"
| "py_iter v = Inl TypeError"

text \<open>\<^verbatim>\<open>s + v\<close> for a string \<open>s\<close>: only another string can be added.\<close>

fun str_add :: "string \<Rightarrow> pyvalue \<Rightarrow> string result" where
  "str_add s (VStr t) = Inr (s @ t)"
| "str_add s v = Inl TypeError"

text \<open>\<^verbatim>\<open>sep.join(items)\<close>: every item must be a string.\<close>

fun str_items :: "pyvalue list \<Rightarrow> string list result" where
  "str_items [] = Inr []"
| "str_items (VStr s # vs) = bind_e (str_items vs) (\<lambda>ss. Inr (s # ss))"
| "str_items (v # vs) = Inl TypeError"

fun join_strings :: "string \<Rightarrow> string list \<Rightarrow> string" where
  "join_strings sep [] = []"
| "join_strings sep [s] = s"
| "join_strings sep (s # t # ss) = s @ sep @ join_strings sep (t # ss)"

definition str_join :: "string \<Rightarrow> pyvalue list \<Rightarrow> string result" where
  "str_join sep vs = bind_e (str_items vs) (\<lambda>ss. Inr (join_strings sep ss))"

text \<open>\<^verbatim>\<open>str(i)\<close> for an integer: its decimal digits, with a minus sign when negative.\<close>

fun str_nat :: "nat \<Rightarrow> string" where
  "str_nat n = (if n < 10 then [''0123456789'' ! n]
                else str_nat (n div 10) @ [''0123456789'' ! (n mod 10)])"

definition str_int :: "int \<Rightarrow> string" where
  "str_int i = (if i < 0 then ''-'' @ str_nat (nat (- i)) else str_nat (nat i))"

text \<open>\<^verbatim>\<open>os.path.join(a, b)\<close> on a POSIX system, for a string \<open>a\<close>.\<close>

definition posix_join :: "string \<Rightarrow> string \<Rightarrow> string" where
  "posix_join a b =
    (if b \<noteq> [] \<and> hd b = CHR ''/'' then b
     else if a = [] \<or> last a = CHR ''/'' then a @ b
     else a @ ''/'' @ b)"

fun os_path_join :: "string \<Rightarrow> pyvalue \<Rightarrow> string result" where
  "os_path_join a (VStr b) = Inr (posix_join a b)"
| "os_path_join a v = Inl TypeError"

section \<open>Validation with its log\<close>

text \<open>
  Lines 66 and 67: after the checks, every channel is formatted with \<^verbatim>\<open>pformat\<close> and
  logged. Printing does not fail, but \<^verbatim>\<open>pformat\<close> descends into its argument and raises
  \<open>RecursionError\<close> on a channel nested deeper than the interpreter allows. It belongs to
  the standard library, so it is a parameter here: the text of a value, or the exception.
  The loop stops at the first channel that cannot be formatted.
\<close>

fun log_channels :: "(pyvalue \<Rightarrow> string result) \<Rightarrow> pyvalue list \<Rightarrow> unit result" where
  "log_channels pformat [] = Inr ()"
| "log_channels pformat (rc # rcs) =
     (case pformat rc of
        Inl e \<Rightarrow> Inl e
      | Inr shown \<Rightarrow> log_channels pformat rcs)"

text \<open>\<^verbatim>\<open>process_params\<close> as a whole, lines 52 to 67: the checks, then the loop.\<close>

definition process_params_with_log :: "(pyvalue \<Rightarrow> string result) \<Rightarrow> pydict \<Rightarrow> unit result" where
  "process_params_with_log pformat params =
    bind_e (process_params params) (\<lambda>_.
    bind_e (dict_get params ''reads_channels'') (\<lambda>reads_channels.
    bind_e (py_iter reads_channels) (\<lambda>rcs.
    log_channels pformat rcs)))"

section \<open>Names the module and the class bind\<close>

text \<open>
  A name that is not local to a function is looked up in the module's namespace when the
  line runs, and raises \<open>NameError\<close> when nothing binds it. The module binds what its
  header imports (lines 4 to 11) and the class it defines.
\<close>

definition module_globals :: "(string \<times> pyvalue) list" where
  "module_globals =
    [(''os'', VObj ''os''), (''SeqIO'', VObj ''SeqIO''), (''pprint'', VObj ''pprint''),
     (''pformat'', VObj ''pformat''), (''AssemblyUtil'', VObj ''AssemblyUtil''),
     (''KBaseReport'', VObj ''KBaseReport''), (''time'', VObj ''time''),
     (''Velvet'', VObj ''Velvet'')]"

definition global_name :: "string \<Rightarrow> pyvalue result" where
  "global_name n = (case map_of module_globals n of None \<Rightarrow> Inl (NameError n) | Some v \<Rightarrow> Inr v)"

text \<open>
  The service object: the attributes the constructor sets (lines 78 to 82), then the
  attributes and methods of the class (lines 38 to 46 and its \<open>def\<close>s). Any other
  attribute raises \<open>AttributeError\<close>.
\<close>

record velvet =
  cfg :: pydict
  callbackURL :: string
  workspaceURL :: string
  scratch :: string

definition class_attrs :: "(string \<times> pyvalue) list" where
  "class_attrs =
    [(''VERSION'', VStr ''0.0.1''),
     (''GIT_URL'', VStr ''https://github.com/kbaseapps/Velvet.git''),
     (''GIT_COMMIT_HASH'', VStr ''f9dd477aaf7d370fb238d63483ed4dd3e6856f64''),
     (''VELVETH'', VStr ''/kb/module/velvet/velveth''),
     (''VELVETG'', VStr ''/kb/module/velvet/velvetg''),
     (''log'', VObj ''log''), (''process_params'', VObj ''process_params''),
     (''run_velveth'', VObj ''run_velveth''), (''run_velvetg'', VObj ''run_velvetg''),
     (''status'', VObj ''status'')]"

definition self_attr :: "velvet \<Rightarrow> string \<Rightarrow> pyvalue result" where
  "self_attr self n =
    (if n = ''cfg'' then Inr (VDict (cfg self))
     else if n = ''callbackURL'' then Inr (VStr (callbackURL self))
     else if n = ''workspaceURL'' then Inr (VStr (workspaceURL self))
     else if n = ''scratch'' then Inr (VStr (scratch self))
     else case map_of class_attrs n of None \<Rightarrow> Inl (AttributeError n) | Some v \<Rightarrow> Inr v)"

section \<open>The world outside the service\<close>

text \<open>
  What the service cannot compute by itself is a parameter: the assembler process
  (\<^verbatim>\<open>subprocess.Popen\<close> followed by \<^verbatim>\<open>wait\<close> gives an exit code, or fails to start),
  the storage client (\<^verbatim>\<open>save_assembly_from_fasta\<close>), the FASTA parser (the sequences of
  the records of a file, or an I/O error), the report client
  (\<^verbatim>\<open>create_extended_report\<close>), a fresh UUID, and the text \<^verbatim>\<open>str(a / float(b))\<close> of a
  floating-point quotient with \<open>b\<close> not zero.
\<close>

record world =
  run_process :: "pyvalue list \<Rightarrow> string \<Rightarrow> int result"
  save_assembly_from_fasta :: "pyvalue \<Rightarrow> pyvalue result"
  parse_fasta :: "string \<Rightarrow> string list result"
  create_extended_report :: "pyvalue \<Rightarrow> pyvalue result"
  uuid4 :: string
  float_div_str :: "nat \<Rightarrow> nat \<Rightarrow> string"

text \<open>
  What a call does to the outside is recorded as a trace: a process started with its
  argument vector and working directory, the wait for it, and each request sent to the
  storage and to the report service.
\<close>

datatype event =
    Spawned "pyvalue list" string
  | Waited
  | CallSaveAssembly pyvalue
  | CallCreateReport pyvalue

type_synonym 'a exec = "'a result \<times> event list"

definition bind_x :: "'a exec \<Rightarrow> ('a \<Rightarrow> 'b exec) \<Rightarrow> 'b exec" where
  "bind_x m f =
    (case m of
       (Inl e, t) \<Rightarrow> (Inl e, t)
     | (Inr a, t) \<Rightarrow> (case f a of (r, t') \<Rightarrow> (r, t @ t')))"

definition pure_x :: "'a result \<Rightarrow> 'a exec" where
  "pure_x r = (r, [])"

fun is_spawn :: "event \<Rightarrow> bool" where
  "is_spawn (Spawned argv cwd) = True"
| "is_spawn ev = False"

fun is_wait :: "event \<Rightarrow> bool" where
  "is_wait Waited = True"
| "is_wait ev = False"

fun is_service_call :: "event \<Rightarrow> bool" where
  "is_service_call (CallSaveAssembly a) = True"
| "is_service_call (CallCreateReport a) = True"
| "is_service_call ev = False"

definition newline :: string where
  "newline = [CHR 0x0A]"

section \<open>The velveth operation\<close>

subsection \<open>The argument vector\<close>

text \<open>
  Lines 145 to 155: the part of the loop body that follows the format flag. The read
  type is appended as a flag; a reference channel appends its reference file; then
  either the separate layout appends its flag and the two files, or the read file is
  appended.
\<close>

definition velveth_channel_files :: "pyvalue list \<Rightarrow> pyvalue \<Rightarrow> pyvalue list result" where
  "velveth_channel_files velveth_cmd rc =
    bind_e (subscript rc (VStr ''read_type'')) (\<lambda>read_type.
    bind_e (str_add ''-'' read_type) (\<lambda>type_flag.
    bind_e (if read_type = VStr ''reference'' then
              bind_e (subscript rc (VStr ''read_file_info'')) (\<lambda>info.
              bind_e (subscript info (VStr ''reference_file'')) (\<lambda>reference_file.
              Inr (velveth_cmd @ [VStr type_flag, reference_file])))
            else Inr (velveth_cmd @ [VStr type_flag])) (\<lambda>cmd1.
    bind_e (subscript rc (VStr ''file_layout'')) (\<lambda>layout.
    if layout = VStr ''separate'' then
      bind_e (subscript rc (VStr ''file_layout'')) (\<lambda>layout2.
      bind_e (str_add ''-'' layout2) (\<lambda>layout_flag.
      bind_e (subscript rc (VStr ''read_file_info'')) (\<lambda>info.
      bind_e (subscript info (VStr ''left_file'')) (\<lambda>left_file.
      bind_e (subscript rc (VStr ''read_file_info'')) (\<lambda>info2.
      bind_e (subscript info2 (VStr ''right_file'')) (\<lambda>right_file.
      Inr (cmd1 @ [VStr layout_flag, left_file, right_file])))))))
    else
      bind_e (subscript rc (VStr ''read_file_info'')) (\<lambda>info.
      bind_e (subscript info (VStr ''read_file'')) (\<lambda>read_file.
      Inr (cmd1 @ [read_file])))))))"

text \<open>
  Lines 144 to 155: the whole loop body. Line 144 subscripts the channel with the name
  \<^verbatim>\<open>file_format\<close> (not the string \<^verbatim>\<open>'file_format'\<close>), which is resolved in the module's
  namespace first.
\<close>

definition velveth_channel :: "pyvalue list \<Rightarrow> pyvalue \<Rightarrow> pyvalue list result" where
  "velveth_channel velveth_cmd rc =
    bind_e (global_name ''file_format'') (\<lambda>file_format.
    bind_e (subscript rc file_format) (\<lambda>fmt.
    bind_e (str_add ''-'' fmt) (\<lambda>format_flag.
    velveth_channel_files (velveth_cmd @ [VStr format_flag]) rc)))"

text \<open>Line 143: the loop over the channels, stopping at the first exception.\<close>

fun velveth_channels :: "pyvalue list \<Rightarrow> pyvalue list \<Rightarrow> pyvalue list result" where
  "velveth_channels velveth_cmd [] = Inr velveth_cmd"
| "velveth_channels velveth_cmd (rc # rcs) =
     (case velveth_channel velveth_cmd rc of
        Inl e \<Rightarrow> Inl e
      | Inr cmd' \<Rightarrow> velveth_channels cmd' rcs)"

text \<open>
  Lines 124 to 155: the parameters are read back from the params object, the command
  starts with the attribute \<^verbatim>\<open>self.MEGAHITH\<close>, the output directory (the scratch
  directory joined with the output folder), the hash length and the output folder, and
  the loop adds the arguments of each channel. The timestamp of line 136 needs the name
  \<^verbatim>\<open>datetime\<close>; its value is used nowhere. The result is the output directory and the
  argument vector.
\<close>

definition velveth_command :: "velvet \<Rightarrow> pydict \<Rightarrow> (string \<times> pyvalue list) result" where
  "velveth_command self params =
    bind_e (dict_get params ''out_fodler'') (\<lambda>out_folder.
    bind_e (dict_get params ''hash_length'') (\<lambda>hash_length.
    bind_e (dict_get params ''workspace_name'') (\<lambda>wsname.
    bind_e (dict_get params ''reads_channels'') (\<lambda>reads_channels.
    bind_e (self_attr self ''MEGAHITH'') (\<lambda>megahith.
    bind_e (global_name ''datetime'') (\<lambda>datetime.
    bind_e (os_path_join (scratch self) out_folder) (\<lambda>output_dir.
    bind_e (py_iter reads_channels) (\<lambda>rcs.
    bind_e (velveth_channels [megahith, VStr output_dir, hash_length, out_folder] rcs)
      (\<lambda>velveth_cmd. Inr (output_dir, velveth_cmd))))))))))"

subsection \<open>Running the assembler\<close>

text \<open>
  Lines 159 to 162: the command line is printed (which joins the arguments with spaces),
  then the process is started in the scratch directory and waited for. The result is the
  exit code.
\<close>

definition velveth_spawn :: "velvet \<Rightarrow> world \<Rightarrow> pyvalue list \<Rightarrow> int exec" where
  "velveth_spawn self w velveth_cmd =
    bind_x (pure_x (str_join '' '' velveth_cmd)) (\<lambda>line.
    bind_x (pure_x (global_name ''subprocess'')) (\<lambda>subprocess.
    (case run_process w velveth_cmd (scratch self) of
       Inl e \<Rightarrow> (Inl e, [])
     | Inr retcode \<Rightarrow> (Inr retcode, [Spawned velveth_cmd (scratch self), Waited]))))"

subsection \<open>Statistics and report\<close>

text \<open>
  Lines 184 to 187: the text of the report, from the lengths of the parsed records. The
  first line concatenates two entries of the params object, the second gives the number
  of contigs, the third the quotient of the sum of the lengths by their number, a
  floating-point division that raises \<open>ZeroDivisionError\<close> when the divisor is zero.
\<close>

definition velveth_report_text :: "world \<Rightarrow> pydict \<Rightarrow> nat list \<Rightarrow> string result" where
  "velveth_report_text w params lengths =
    bind_e (dict_get params ''workspace_name'') (\<lambda>ws.
    bind_e (str_add ''ContigSet saved to: '' ws) (\<lambda>s1.
    bind_e (dict_get params ''output_contigset_name'') (\<lambda>name.
    bind_e (str_add (s1 @ ''/'') name) (\<lambda>s2.
    bind_e (Inr (s2 @ newline @
                 ''Assembled into '' @ str_int (int (length lengths)) @ '' contigs.'' @ newline))
      (\<lambda>report.
    if length lengths = 0 then Inl ZeroDivisionError
    else Inr (report @ ''Avg Length: '' @
              float_div_str w (sum_list lengths) (length lengths) @ '' bp.'' @ newline))))))"

text \<open>
  Lines 193 to 203: the argument of the report request. The dictionary is built entry by
  entry, in the order written; the entry \<^verbatim>\<open>html_links\<close> subscripts the name
  \<^verbatim>\<open>quastret\<close> and the entry \<^verbatim>\<open>report_object_name\<close> needs the name \<^verbatim>\<open>uuid\<close>.
\<close>

definition velveth_report_args ::
  "world \<Rightarrow> pydict \<Rightarrow> string \<Rightarrow> pyvalue \<Rightarrow> pyvalue result" where
  "velveth_report_args w params report output_data_ref =
    bind_e (global_name ''quastret'') (\<lambda>quastret.
    bind_e (subscript quastret (VStr ''shock_id'')) (\<lambda>shock_id.
    bind_e (global_name ''uuid'') (\<lambda>uuid.
    bind_e (dict_get params ''workspace_name'') (\<lambda>ws.
    Inr (VDict
      [(''message'', VStr report),
       (''objects_created'',
          VList [VDict [(''ref'', output_data_ref),
                        (''description'', VStr ''Assembled contigs'')]]),
       (''direct_html_link_index'', VInt 0),
       (''html_links'',
          VList [VDict [(''shock_id'', shock_id), (''name'', VStr ''report.html''),
                        (''label'', VStr ''VELVETH report'')]]),
       (''report_object_name'', VStr (''kb_velveth_report_'' @ uuid4 w)),
       (''workspace_name'', ws)])))))"

text \<open>
  Lines 191 to 208: the request to the report service inside \<^verbatim>\<open>try\<close>. When the body
  raises, the \<^verbatim>\<open>except\<close> clause first resolves the name \<^verbatim>\<open>_RepError\<close>; were it bound,
  the handler would print the exception and raise it again, and an exception of another
  class would pass through unchanged, so the exception of the body leaves either way.
\<close>

definition velveth_create_report ::
  "world \<Rightarrow> pydict \<Rightarrow> string \<Rightarrow> pyvalue \<Rightarrow> pyvalue exec" where
  "velveth_create_report w params report output_data_ref =
    (case bind_x (pure_x (velveth_report_args w params report output_data_ref))
            (\<lambda>args. (create_extended_report w args, [CallCreateReport args])) of
       (Inr report_info, t) \<Rightarrow> (Inr report_info, t)
     | (Inl e, t) \<Rightarrow>
         (case global_name ''_RepError'' of
            Inl e' \<Rightarrow> (Inl e', t)
          | Inr rep_error \<Rightarrow> (Inl e, t)))"

subsection \<open>From the exit code to the result\<close>

text \<open>
  Lines 164 to 211, what follows the wait: a non-zero exit code raises; otherwise the
  contig file is sent to the storage service, parsed for the lengths of its records, the
  report text is built and sent to the report service, and the result holds the name and
  the reference of the report.
\<close>

definition velveth_finish :: "world \<Rightarrow> pydict \<Rightarrow> string \<Rightarrow> int \<Rightarrow> pyvalue exec" where
  "velveth_finish w params output_dir retcode =
    (if retcode \<noteq> 0 then
       (Inl (ValueError (''Error running VELVETH, return code: '' @ str_int retcode @ newline)),
        [])
     else
       bind_x (pure_x (Inr (posix_join output_dir ''final.contigs.fa''))) (\<lambda>output_contigs.
       bind_x (pure_x (dict_get params ''workspace_name'')) (\<lambda>ws.
       bind_x (pure_x (dict_get params ''output_contigset_name'')) (\<lambda>name.
       bind_x (pure_x (Inr (VDict [(''file'', VDict [(''path'', VStr output_contigs)]),
                                   (''workspace_name'', ws), (''assembly_name'', name)])))
         (\<lambda>save_args.
       bind_x (save_assembly_from_fasta w save_args, [CallSaveAssembly save_args])
         (\<lambda>output_data_ref.
       bind_x (pure_x (parse_fasta w output_contigs)) (\<lambda>records.
       bind_x (pure_x (velveth_report_text w params (map length records))) (\<lambda>report.
       bind_x (velveth_create_report w params report output_data_ref) (\<lambda>report_info.
       bind_x (pure_x (subscript report_info (VStr ''name''))) (\<lambda>report_name.
       bind_x (pure_x (subscript report_info (VStr ''ref''))) (\<lambda>report_ref.
       (Inr (VDict [(''report_name'', report_name), (''report_ref'', report_ref)]),
        []))))))))))))"

subsection \<open>The two operations\<close>

text \<open>
  \<^verbatim>\<open>run_velveth\<close>, lines 116 to 219: the token is read from the context, the params are
  validated, the command is built and run, and the steps after the wait produce the
  output, which is returned in a list when it is a dictionary. The log lines (line 116,
  and lines 66 and 67 inside validation) are left out of this definition: when
  \<^verbatim>\<open>pformat\<close> raises there, the call ends still earlier, with nothing spawned or sent.
\<close>

definition run_velveth :: "velvet \<Rightarrow> world \<Rightarrow> pydict \<Rightarrow> pydict \<Rightarrow> pyvalue list exec" where
  "run_velveth self w ctx params =
    bind_x (pure_x (dict_get ctx ''token'')) (\<lambda>token.
    bind_x (pure_x (process_params params)) (\<lambda>_.
    bind_x (pure_x (velveth_command self params)) (\<lambda>(output_dir, velveth_cmd).
    bind_x (velveth_spawn self w velveth_cmd) (\<lambda>retcode.
    bind_x (velveth_finish w params output_dir retcode) (\<lambda>output.
    if \<not> isinstance_dict output then
      (Inl (ValueError ''Method run_velveth return value output is not type dict as required.''),
       [])
    else (Inr [output], []))))))"

text \<open>
  \<^verbatim>\<open>run_velvetg\<close>, lines 307 to 315: the body between the markers is empty, so the name
  \<^verbatim>\<open>output\<close> is not local and is resolved in the module's namespace.
\<close>

definition run_velvetg :: "velvet \<Rightarrow> world \<Rightarrow> pydict \<Rightarrow> pydict \<Rightarrow> pyvalue list exec" where
  "run_velvetg self w ctx params =
    bind_x (pure_x (global_name ''output'')) (\<lambda>output.
    if \<not> isinstance_dict output then
      (Inl (ValueError ''Method run_velvetg return value output is not type dict as required.''),
       [])
    else (Inr [output], []))"

section \<open>Sample inputs\<close>

definition sample_service :: velvet where
  "sample_service =
    \<lparr>cfg = [(''scratch'', VStr ''/kb/module/work/tmp'')], callbackURL = ''http://localhost:5000'',
     workspaceURL = ''https://kbase.us/services/ws'', scratch = ''/kb/module/work/tmp''\<rparr>"

text \<open>
  A world in which everything outside the service succeeds: the assembler exits with
  code 0, the contig file holds two records, and both services answer.
\<close>

definition sample_world :: world where
  "sample_world =
    \<lparr>run_process = (\<lambda>argv cwd. Inr 0),
     save_assembly_from_fasta = (\<lambda>args. Inr (VStr ''12/3/1'')),
     parse_fasta = (\<lambda>path. Inr [''ACGTACGT'', ''ACGT'']),
     create_extended_report =
       (\<lambda>args. Inr (VDict [(''name'', VStr ''kb_velveth_report_1''), (''ref'', VStr ''12/4/1'')])),
     uuid4 = ''1'',
     float_div_str = (\<lambda>a b. ''6.0'')\<rparr>"

text \<open>The same world with an assembler that exits with code 1.\<close>

definition failing_assembler_world :: world where
  "failing_assembler_world = sample_world\<lparr>run_process := (\<lambda>argv cwd. Inr 1)\<rparr>"

text \<open>A formatter that never fails, and one that fails on every value.\<close>

definition quiet_pformat :: "pyvalue \<Rightarrow> string result" where
  "quiet_pformat v = Inr ''{...}''"

definition failing_pformat :: "pyvalue \<Rightarrow> string result" where
  "failing_pformat v = Inl RecursionError"

text \<open>The same world with a contig file that holds no record.\<close>

definition empty_contigs_world :: world where
  "empty_contigs_world = sample_world\<lparr>parse_fasta := (\<lambda>path. Inr [])\<rparr>"

definition sample_channel :: pyvalue where
  "sample_channel =
    VDict [(''read_type'', VStr ''reference''), (''file_format'', VStr ''fasta''),
           (''file_layout'', VStr ''separate''),
           (''read_file_info'',
              VDict [(''read_file'', VStr ''reads.fa''), (''reference_file'', VStr ''ref.fa''),
                     (''left_file'', VStr ''left.fa''), (''right_file'', VStr ''right.fa'')])]"

definition sample_ctx :: pydict where
  "sample_ctx = [(''token'', VStr ''secret'')]"

definition sample_params :: pydict where
  "sample_params =
    [(''workspace_name'', VStr ''my_ws''), (''out_folder'', VStr ''velvet_out''),
     (''hash_length'', VInt 21), (''reads_channels'', VList [sample_channel]),
     (''output_contigset_name'', VStr ''contigs'')]"

text \<open>Params without the key \<^verbatim>\<open>reads_channels\<close>, and params whose hash length is a boolean.\<close>

definition params_without_channels :: pydict where
  "params_without_channels =
    [(''workspace_name'', VStr ''my_ws''), (''out_folder'', VStr ''velvet_out''),
     (''hash_length'', VInt 21)]"

definition params_bool_hash :: pydict where
  "params_bool_hash =
    [(''workspace_name'', VStr ''my_ws''), (''out_folder'', VStr ''velvet_out''),
     (''hash_length'', VBool True), (''reads_channels'', VList [])]"

section \<open>Predicates used in the statements\<close>

text \<open>
  The entry under a key exists and is not an integer, is not a list, or is a string. The
  request the storage service receives for given params and output directory.
\<close>

definition has_non_int :: "pydict \<Rightarrow> string \<Rightarrow> bool" where
  "has_non_int d k = (case map_of d k of Some v \<Rightarrow> \<not> isinstance_int v | None \<Rightarrow> False)"

definition has_non_list :: "pydict \<Rightarrow> string \<Rightarrow> bool" where
  "has_non_list d k = (case map_of d k of Some v \<Rightarrow> \<not> type_is_list v | None \<Rightarrow> False)"

definition has_str :: "pydict \<Rightarrow> string \<Rightarrow> bool" where
  "has_str d k = (case map_of d k of Some (VStr s) \<Rightarrow> True | _ \<Rightarrow> False)"

definition save_args_of :: "pydict \<Rightarrow> string \<Rightarrow> pyvalue" where
  "save_args_of params output_dir =
     VDict [(''file'', VDict [(''path'', VStr (posix_join output_dir ''final.contigs.fa''))]),
            (''workspace_name'', the (map_of params ''workspace_name'')),
            (''assembly_name'', the (map_of params ''output_contigset_name''))]"

section \<open>Properties of parameter validation\<close>

lemma process_params_ok_iff:
  "process_params params = Inr () \<longleftrightarrow>
     py_in ''workspace_name'' params \<and> py_in ''out_folder'' params \<and>
     has_int params ''hash_length'' \<and> has_list params ''reads_channels''"
  by (auto simp: process_params_def bind_e_def dict_get_def py_in_def has_int_def has_list_def
           split: option.splits)

section \<open>Basic facts\<close>

lemma bind_e_simps:
  "bind_e (Inl e) f = Inl e"
  "bind_e (Inr a) f = f a"
  by (simp_all add: bind_e_def)

lemma bind_x_simps:
  "bind_x (Inl e, t) f = (Inl e, t)"
  "bind_x (pure_x (Inl e)) f = (Inl e, [])"
  "bind_x (pure_x (Inr a)) f = f a"
  by (simp_all add: bind_x_def pure_x_def split: prod.splits)

lemma dict_get_cases:
  "dict_get d k = (if py_in k d then Inr (the (map_of d k)) else Inl (KeyError (VStr k)))"
  by (simp add: dict_get_def py_in_def split: option.splits)

text \<open>
  The class defines \<^verbatim>\<open>VELVETH\<close> and \<^verbatim>\<open>VELVETG\<close> but no attribute \<^verbatim>\<open>MEGAHITH\<close>, and the
  module binds none of the names below: it imports neither \<^verbatim>\<open>datetime\<close>,
  \<^verbatim>\<open>subprocess\<close> nor \<^verbatim>\<open>uuid\<close>, and nothing assigns the others.
\<close>

lemma self_attr_MEGAHITH: "self_attr self ''MEGAHITH'' = Inl (AttributeError ''MEGAHITH'')"
  by (simp add: self_attr_def class_attrs_def)

lemma global_name_unbound:
  "global_name ''file_format'' = Inl (NameError ''file_format'')"
  "global_name ''datetime'' = Inl (NameError ''datetime'')"
  "global_name ''subprocess'' = Inl (NameError ''subprocess'')"
  "global_name ''quastret'' = Inl (NameError ''quastret'')"
  "global_name ''uuid'' = Inl (NameError ''uuid'')"
  "global_name ''_RepError'' = Inl (NameError ''_RepError'')"
  "global_name ''output'' = Inl (NameError ''output'')"
  by (simp_all add: global_name_def module_globals_def)

lemma str_int_small:
  "str_int 0 = ''0''" "str_int 1 = ''1''" "str_int 2 = ''2''" "str_int (- 9) = ''-9''"
  "str_int 127 = ''127''"
  by (simp_all add: str_int_def)

subsection \<open>Which params are rejected\<close>

text \<open>
  The checks alone raise exactly in six cases, one for each \<^verbatim>\<open>raise\<close> of lines 53 to 65.
\<close>

lemma process_params_checks_raise_iff:
  "isl (process_params params) \<longleftrightarrow>
     \<not> py_in ''workspace_name'' params \<or> \<not> py_in ''out_folder'' params \<or>
     \<not> py_in ''hash_length'' params \<or> has_non_int params ''hash_length'' \<or>
     \<not> py_in ''reads_channels'' params \<or> has_non_list params ''reads_channels''"
  by (auto simp: process_params_def bind_e_def dict_get_def py_in_def has_non_int_def
        has_non_list_def split: option.splits)

lemma log_channels_raises_iff:
  "isl (log_channels pformat rcs) \<longleftrightarrow> (\<exists>rc \<in> set rcs. isl (pformat rc))"
  by (induction rcs) (auto split: sum.splits)

text \<open>
  C2 (as claimed). The claim lists five rejections: no \<^verbatim>\<open>workspace_name\<close>, no
  \<^verbatim>\<open>out_folder\<close>, no \<^verbatim>\<open>hash_length\<close>, a \<^verbatim>\<open>hash_length\<close> that is not an integer, a
  \<^verbatim>\<open>reads_channels\<close> that is not a list, and says nothing else is rejected. Params that
  hold the first three keys with an integer hash length and no \<^verbatim>\<open>reads_channels\<close> entry at
  all meet none of the five, yet line 63 raises for them, whatever the log would do.
\<close>

theorem process_params_missing_channels_counterexample:
  "process_params params_without_channels =
     Inl (ValueError ''key-val pairs representing the reads_channels parameter is required'')
   \<and> process_params_with_log quiet_pformat params_without_channels =
     Inl (ValueError ''key-val pairs representing the reads_channels parameter is required'')
   \<and> \<not> (\<not> py_in ''workspace_name'' params_without_channels
        \<or> \<not> py_in ''out_folder'' params_without_channels
        \<or> \<not> py_in ''hash_length'' params_without_channels
        \<or> has_non_int params_without_channels ''hash_length''
        \<or> has_non_list params_without_channels ''reads_channels'')"
  by (simp add: process_params_with_log_def process_params_def params_without_channels_def
        py_in_def has_non_int_def has_non_list_def bind_e_def dict_get_def)

text \<open>
  C2 (amended). Parameter validation raises for every params that lack
  \<^verbatim>\<open>workspace_name\<close>, or lack \<^verbatim>\<open>out_folder\<close>, or lack \<^verbatim>\<open>hash_length\<close>, or whose
  \<^verbatim>\<open>hash_length\<close> is not of integer type, or that lack \<^verbatim>\<open>reads_channels\<close>, or whose
  \<^verbatim>\<open>reads_channels\<close> is not a list. For any other params it raises in one case only:
  when formatting one of the channels for the log raises.
\<close>

theorem process_params_with_log_raises_iff:
  "isl (process_params_with_log pformat params) \<longleftrightarrow>
     \<not> py_in ''workspace_name'' params \<or> \<not> py_in ''out_folder'' params \<or>
     \<not> py_in ''hash_length'' params \<or> has_non_int params ''hash_length'' \<or>
     \<not> py_in ''reads_channels'' params \<or> has_non_list params ''reads_channels'' \<or>
     (\<exists>rcs. map_of params ''reads_channels'' = Some (VList rcs) \<and>
            (\<exists>rc \<in> set rcs. isl (pformat rc)))"
proof (cases "process_params params")
  case (Inl e)
  then have "isl (process_params params)" by simp
  with process_params_checks_raise_iff [of params]
  have six: "\<not> py_in ''workspace_name'' params \<or> \<not> py_in ''out_folder'' params \<or>
     \<not> py_in ''hash_length'' params \<or> has_non_int params ''hash_length'' \<or>
     \<not> py_in ''reads_channels'' params \<or> has_non_list params ''reads_channels''"
    by blast
  from Inl have "isl (process_params_with_log pformat params)"
    by (simp add: process_params_with_log_def bind_e_simps)
  with six show ?thesis by blast
next
  case (Inr u)
  then have ok: "process_params params = Inr ()" by simp
  then have "has_list params ''reads_channels''"
    by (simp add: process_params_ok_iff)
  then obtain rcs where rcs: "map_of params ''reads_channels'' = Some (VList rcs)"
    by (auto simp: has_list_def split: option.splits elim: type_is_list.elims)
  from ok have "\<not> isl (process_params params)" by simp
  with process_params_checks_raise_iff [of params]
  have none: "\<not> (\<not> py_in ''workspace_name'' params \<or> \<not> py_in ''out_folder'' params \<or>
     \<not> py_in ''hash_length'' params \<or> has_non_int params ''hash_length'' \<or>
     \<not> py_in ''reads_channels'' params \<or> has_non_list params ''reads_channels'')"
    by blast
  from ok rcs have "process_params_with_log pformat params = log_channels pformat rcs"
    by (simp add: process_params_with_log_def bind_e_simps dict_get_def)
  then have "isl (process_params_with_log pformat params) \<longleftrightarrow>
      (\<exists>rc \<in> set rcs. isl (pformat rc))"
    by (simp add: log_channels_raises_iff)
  with none rcs show ?thesis by auto
qed

theorem process_params_with_log_raises_iff_witness:
  "isl (process_params_with_log quiet_pformat params_without_channels) \<and>
   \<not> isl (process_params_with_log quiet_pformat sample_params) \<and>
   isl (process_params_with_log failing_pformat sample_params)"
  using process_params_with_log_raises_iff [of quiet_pformat params_without_channels]
        process_params_with_log_raises_iff [of quiet_pformat sample_params]
        process_params_with_log_raises_iff [of failing_pformat sample_params]
  by (simp add: params_without_channels_def sample_params_def py_in_def has_non_int_def
        has_non_list_def quiet_pformat_def failing_pformat_def)

text \<open>
  C9. The type check on \<^verbatim>\<open>hash_length\<close> is \<^verbatim>\<open>isinstance(..., int)\<close>, which a Python boolean
  passes: params whose hash length is \<open>True\<close> or \<open>False\<close>, and that are otherwise well
  formed, are accepted.
\<close>

theorem process_params_accepts_bool:
  "py_in ''workspace_name'' params \<Longrightarrow> py_in ''out_folder'' params \<Longrightarrow>
   map_of params ''hash_length'' = Some (VBool b) \<Longrightarrow>
   has_list params ''reads_channels'' \<Longrightarrow>
   isinstance_int (VBool b) \<and> process_params params = Inr ()"
  by (auto simp: process_params_def bind_e_def dict_get_def py_in_def has_list_def
        split: option.splits)

theorem process_params_accepts_bool_witness:
  "py_in ''workspace_name'' params_bool_hash \<and> py_in ''out_folder'' params_bool_hash \<and>
   map_of params_bool_hash ''hash_length'' = Some (VBool True) \<and>
   has_list params_bool_hash ''reads_channels'' \<and>
   process_params params_bool_hash = Inr ()"
proof -
  have a: "py_in ''workspace_name'' params_bool_hash"
    by (simp add: py_in_def params_bool_hash_def)
  have b: "py_in ''out_folder'' params_bool_hash"
    by (simp add: py_in_def params_bool_hash_def)
  have c: "map_of params_bool_hash ''hash_length'' = Some (VBool True)"
    by (simp add: params_bool_hash_def)
  have d: "has_list params_bool_hash ''reads_channels''"
    by (simp add: has_list_def params_bool_hash_def)
  from process_params_accepts_bool [OF a b c d] a b c d show ?thesis by simp
qed

section \<open>Properties of the velveth flow\<close>

subsection \<open>How far a call gets\<close>

text \<open>
  Building the command always raises: line 124 reads the key \<^verbatim>\<open>out_fodler\<close>, and when
  the params happen to hold that key and the three others read next, line 133 asks for
  the attribute \<^verbatim>\<open>MEGAHITH\<close>.
\<close>

lemma velveth_command_raises:
  "velveth_command self params =
     (if \<not> py_in ''out_fodler'' params then Inl (KeyError (VStr ''out_fodler''))
      else if \<not> py_in ''hash_length'' params then Inl (KeyError (VStr ''hash_length''))
      else if \<not> py_in ''workspace_name'' params then Inl (KeyError (VStr ''workspace_name''))
      else if \<not> py_in ''reads_channels'' params then Inl (KeyError (VStr ''reads_channels''))
      else Inl (AttributeError ''MEGAHITH''))"
  by (simp add: velveth_command_def dict_get_cases bind_e_simps self_attr_MEGAHITH)

lemma run_velveth_prefix:
  "run_velveth self w ctx params =
     (if \<not> py_in ''token'' ctx then (Inl (KeyError (VStr ''token'')), [])
      else case process_params params of
             Inl e \<Rightarrow> (Inl e, [])
           | Inr u \<Rightarrow>
               (if py_in ''out_fodler'' params then (Inl (AttributeError ''MEGAHITH''), [])
                else (Inl (KeyError (VStr ''out_fodler'')), [])))"
proof (cases "process_params params")
  case (Inl e)
  then show ?thesis
    by (simp add: run_velveth_def dict_get_cases bind_x_simps)
next
  case (Inr u)
  then have ok: "process_params params = Inr ()" by simp
  then have "py_in ''hash_length'' params" "py_in ''workspace_name'' params"
    "py_in ''reads_channels'' params"
    by (auto simp: process_params_ok_iff has_int_def has_list_def py_in_def split: option.splits)
  with Inr show ?thesis
    by (simp add: run_velveth_def dict_get_cases bind_x_simps velveth_command_raises)
qed

lemma run_velveth_trace: "snd (run_velveth self w ctx params) = []"
  by (simp add: run_velveth_prefix split: sum.splits)

lemma run_velveth_never_returns: "isl (fst (run_velveth self w ctx params))"
  by (simp add: run_velveth_prefix split: sum.splits)

text \<open>
  C1. The claim is that every call whose params pass validation runs to completion and
  returns the name and reference of the report. On the code no such call does: with a
  token in the context and validated params, the call raises before anything is spawned
  or sent, \<open>KeyError\<close> for the misspelt key \<^verbatim>\<open>out_fodler\<close> of line 124 or, when the params
  hold that key too, \<open>AttributeError\<close> for \<^verbatim>\<open>self.MEGAHITH\<close> of line 133.
\<close>

theorem run_velveth_valid_params_raises:
  "process_params params = Inr () \<Longrightarrow> py_in ''token'' ctx \<Longrightarrow>
   run_velveth self w ctx params =
     (Inl (if py_in ''out_fodler'' params then AttributeError ''MEGAHITH''
           else KeyError (VStr ''out_fodler'')), [])"
  by (simp add: run_velveth_prefix)

theorem run_velveth_valid_params_raises_witness:
  "process_params sample_params = Inr () \<and> py_in ''token'' sample_ctx \<and>
   run_velveth sample_service sample_world sample_ctx sample_params =
     (Inl (KeyError (VStr ''out_fodler'')), [])"
proof -
  have a: "process_params sample_params = Inr ()"
    by (simp add: process_params_ok_iff sample_params_def py_in_def has_int_def has_list_def)
  have b: "py_in ''token'' sample_ctx"
    by (simp add: sample_ctx_def py_in_def)
  have c: "\<not> py_in ''out_fodler'' sample_params"
    by (simp add: sample_params_def py_in_def)
  from run_velveth_valid_params_raises [OF a b, of sample_service sample_world] a b c
  show ?thesis by simp
qed

text \<open>
  C7. When validation rejects the params, the call raises before any later step: the
  exception is the one validation raised (or the \<open>KeyError\<close> of a context without token,
  which is read first), no process is spawned and neither service is called.
\<close>

theorem run_velveth_rejected_params:
  "process_params params = Inl e \<Longrightarrow>
   fst (run_velveth self w ctx params) =
     Inl (if py_in ''token'' ctx then e else KeyError (VStr ''token'')) \<and>
   filter is_spawn (snd (run_velveth self w ctx params)) = [] \<and>
   filter is_service_call (snd (run_velveth self w ctx params)) = []"
  by (simp add: run_velveth_def dict_get_cases bind_x_simps)

theorem run_velveth_rejected_params_witness:
  "process_params params_without_channels =
     Inl (ValueError ''key-val pairs representing the reads_channels parameter is required'') \<and>
   fst (run_velveth sample_service sample_world sample_ctx params_without_channels) =
     Inl (ValueError ''key-val pairs representing the reads_channels parameter is required'') \<and>
   filter is_spawn
     (snd (run_velveth sample_service sample_world sample_ctx params_without_channels)) = [] \<and>
   filter is_service_call
     (snd (run_velveth sample_service sample_world sample_ctx params_without_channels)) = []"
proof -
  have a: "process_params params_without_channels =
     Inl (ValueError ''key-val pairs representing the reads_channels parameter is required'')"
    by (simp add: process_params_def params_without_channels_def py_in_def bind_e_def
          dict_get_def)
  have b: "py_in ''token'' sample_ctx"
    by (simp add: sample_ctx_def py_in_def)
  from run_velveth_rejected_params [OF a, of sample_service sample_world sample_ctx] a b
  show ?thesis by simp
qed

lemma process_params_raises_ValueError:
  "process_params params = Inl e \<Longrightarrow>
   e \<in> {ValueError ''a string reprsenting workspace_name parameter is required'',
        ValueError ''a string reprsenting out_folder parameter is required'',
        ValueError ''an integerreprsenting  hash_length parameter is required'',
        ValueError ''hash_length must be of type int'',
        ValueError ''key-val pairs representing the reads_channels parameter is required'',
        ValueError ''reads_channels must be a list''}"
  by (auto simp: process_params_def bind_e_def dict_get_def py_in_def
        split: if_splits option.splits)

text \<open>
  C8. The claim is that every call spawns exactly one process and waits for it. On the
  code no call spawns a process at all: every call ends before line 161, so the trace
  holds neither a spawn nor a wait. It is so for the sample call too, whose params pass
  validation and whose context holds a token.
\<close>

theorem run_velveth_spawns_no_process:
  "filter is_spawn (snd (run_velveth self w ctx params)) = [] \<and>
   filter is_wait (snd (run_velveth self w ctx params)) = [] \<and>
   process_params sample_params = Inr () \<and>
   length (filter is_spawn
     (snd (run_velveth sample_service sample_world sample_ctx sample_params))) = 0"
  by (simp add: run_velveth_trace process_params_ok_iff sample_params_def py_in_def
        has_int_def has_list_def)

subsection \<open>The arguments of a channel\<close>

text \<open>
  What lines 145 to 155 append for a channel that holds every entry they read: the flag
  of the read type, the reference file of a reference channel, then the flag and the two
  files of the separate layout, or else the read file.
\<close>

lemma velveth_channel_files_args:
  assumes "map_of rc ''read_type'' = Some (VStr t)"
    and "map_of rc ''file_layout'' = Some layout"
    and "map_of rc ''read_file_info'' = Some (VDict info)"
    and "map_of info ''reference_file'' = Some reference_file"
    and "map_of info ''left_file'' = Some left_file"
    and "map_of info ''right_file'' = Some right_file"
    and "map_of info ''read_file'' = Some read_file"
  shows "velveth_channel_files velveth_cmd (VDict rc) =
     Inr (velveth_cmd @ [VStr (''-'' @ t)] @
          (if t = ''reference'' then [reference_file] else []) @
          (if layout = VStr ''separate'' then [VStr ''-separate'', left_file, right_file]
           else [read_file]))"
  using assms by (simp add: velveth_channel_files_def dict_get_def bind_e_simps)

text \<open>
  C4. The claim describes what the loop appends for each channel. The loop body starts,
  at line 144, by subscripting the channel with the unbound name \<^verbatim>\<open>file_format\<close>, so for
  every channel it raises \<open>NameError\<close> and nothing is appended.
\<close>

theorem velveth_channel_raises:
  "velveth_channel velveth_cmd rc = Inl (NameError ''file_format'')"
  by (simp add: velveth_channel_def global_name_unbound bind_e_simps)

subsection \<open>After the wait\<close>

text \<open>
  The step after the wait, taken alone: a non-zero exit code raises the \<open>ValueError\<close>
  whose message ends with that code, and nothing is sent to a service.
\<close>

lemma velveth_finish_nonzero_exit:
  "retcode \<noteq> 0 \<Longrightarrow>
   velveth_finish w params output_dir retcode =
     (Inl (ValueError (''Error running VELVETH, return code: '' @ str_int retcode @ newline)),
      [])"
  by (simp add: velveth_finish_def)

text \<open>
  C3. The claim is that a run whose assembler exits with a non-zero code raises the error
  that carries this code. On the code no run gets that far: whatever the assembler would
  answer, a call never raises the exit-code error. With the sample params and an
  assembler that exits with code 1, the call raises \<open>KeyError\<close> for \<^verbatim>\<open>out_fodler\<close> at
  line 124, before anything is spawned.
\<close>

theorem run_velveth_never_raises_exit_code:
  "fst (run_velveth self w ctx params) \<noteq>
     Inl (ValueError (''Error running VELVETH, return code: '' @ str_int retcode @ newline)) \<and>
   run_velveth sample_service failing_assembler_world sample_ctx sample_params =
     (Inl (KeyError (VStr ''out_fodler'')), [])"
proof -
  have a: "fst (run_velveth self w ctx params) \<noteq>
     Inl (ValueError (''Error running VELVETH, return code: '' @ str_int retcode @ newline))"
  proof (cases "process_params params")
    case (Inl e)
    from process_params_raises_ValueError [OF Inl]
    have "e \<noteq> ValueError (''Error running VELVETH, return code: '' @ str_int retcode @ newline)"
      by auto
    with Inl show ?thesis by (simp add: run_velveth_prefix)
  next
    case (Inr u)
    then show ?thesis by (simp add: run_velveth_prefix)
  qed
  have ok: "process_params sample_params = Inr ()"
    by (simp add: process_params_ok_iff sample_params_def py_in_def has_int_def has_list_def)
  have b: "run_velveth sample_service failing_assembler_world sample_ctx sample_params =
     (Inl (KeyError (VStr ''out_fodler'')), [])"
    by (simp add: run_velveth_prefix ok) (simp add: sample_ctx_def sample_params_def py_in_def)
  from a b show ?thesis by simp
qed

text \<open>
  The report text for at least one record: the count is the number of records, and the
  average is the floating-point quotient of the sum of their lengths by their number.
\<close>

lemma velveth_report_text_records:
  assumes "map_of params ''workspace_name'' = Some (VStr ws)"
    and "map_of params ''output_contigset_name'' = Some (VStr name)"
    and "records \<noteq> []"
  shows "velveth_report_text w params (map length records) =
     Inr (''ContigSet saved to: '' @ ws @ ''/'' @ name @ newline @
          ''Assembled into '' @ str_int (int (length records)) @ '' contigs.'' @ newline @
          ''Avg Length: '' @
          float_div_str w (sum_list (map length records)) (length records) @
          '' bp.'' @ newline)"
  using assms by (simp add: velveth_report_text_def dict_get_def bind_e_simps)

lemma velveth_report_text_no_records:
  "has_str params ''workspace_name'' \<Longrightarrow> has_str params ''output_contigset_name'' \<Longrightarrow>
   velveth_report_text w params [] = Inl ZeroDivisionError"
  by (auto simp: velveth_report_text_def has_str_def dict_get_def bind_e_simps
        split: option.splits pyvalue.splits)

text \<open>
  The steps after the wait, taken alone: with exit code 0, string names and an answer
  from the storage service, a contig file without record ends in \<open>ZeroDivisionError\<close>
  after the storage request.
\<close>

lemma velveth_finish_no_records:
  "has_str params ''workspace_name'' \<Longrightarrow> has_str params ''output_contigset_name'' \<Longrightarrow>
   save_assembly_from_fasta w (save_args_of params output_dir) = Inr output_data_ref \<Longrightarrow>
   parse_fasta w (posix_join output_dir ''final.contigs.fa'') = Inr [] \<Longrightarrow>
   velveth_finish w params output_dir 0 =
     (Inl ZeroDivisionError, [CallSaveAssembly (save_args_of params output_dir)])"
  by (auto simp: velveth_finish_def has_str_def dict_get_def bind_x_simps bind_x_def
        save_args_of_def velveth_report_text_no_records pure_x_def
        split: option.splits pyvalue.splits)

text \<open>
  C10. The claim is that a contig file without record makes \<^verbatim>\<open>run_velveth\<close> fail with a
  division by zero. The division of line 187 is indeed unguarded, but no call reaches it:
  a call never ends in \<open>ZeroDivisionError\<close>, and with the sample params in the world whose
  contig file is empty it raises \<open>KeyError\<close> for \<^verbatim>\<open>out_fodler\<close> at line 124, with no
  storage request.
\<close>

theorem run_velveth_never_zero_division:
  "fst (run_velveth self w ctx params) \<noteq> Inl ZeroDivisionError \<and>
   run_velveth sample_service empty_contigs_world sample_ctx sample_params =
     (Inl (KeyError (VStr ''out_fodler'')), [])"
proof -
  have a: "fst (run_velveth self w ctx params) \<noteq> Inl ZeroDivisionError"
  proof (cases "process_params params")
    case (Inl e)
    from process_params_raises_ValueError [OF Inl] have "e \<noteq> ZeroDivisionError" by auto
    with Inl show ?thesis by (simp add: run_velveth_prefix)
  next
    case (Inr u)
    then show ?thesis by (simp add: run_velveth_prefix)
  qed
  have ok: "process_params sample_params = Inr ()"
    by (simp add: process_params_ok_iff sample_params_def py_in_def has_int_def has_list_def)
  have b: "run_velveth sample_service empty_contigs_world sample_ctx sample_params =
     (Inl (KeyError (VStr ''out_fodler'')), [])"
    by (simp add: run_velveth_prefix ok) (simp add: sample_ctx_def sample_params_def py_in_def)
  from a b show ?thesis by simp
qed

subsection \<open>The report request\<close>

text \<open>
  The request to the report service is never made: its arguments need the names
  \<^verbatim>\<open>quastret\<close> and \<^verbatim>\<open>uuid\<close>, which nothing binds, and the \<^verbatim>\<open>except\<close> clause then needs
  \<^verbatim>\<open>_RepError\<close>. So the steps after the wait never return either.
\<close>

lemma velveth_create_report_raises:
  "velveth_create_report w params report output_data_ref = (Inl (NameError ''_RepError''), [])"
  by (simp add: velveth_create_report_def velveth_report_args_def global_name_unbound
        bind_e_simps bind_x_simps)

lemma velveth_finish_never_returns:
  "isl (fst (velveth_finish w params output_dir retcode))"
  by (auto simp: velveth_finish_def bind_x_def pure_x_def velveth_create_report_raises
        split: sum.splits prod.splits)

lemma velveth_finish_no_report_request:
  "CallCreateReport args \<notin> set (snd (velveth_finish w params output_dir retcode))"
  by (auto simp: velveth_finish_def bind_x_def pure_x_def velveth_create_report_raises
        split: sum.splits prod.splits)

text \<open>
  C5. The claim is that the statistics \<^verbatim>\<open>run_velveth\<close> puts in the report are exact. On
  the code no statistics reach a report: every call raises, and its trace holds no report
  request. For the sample call, whose contig file holds two records of lengths 8 and 4,
  the call raises \<open>KeyError\<close> at line 124 and the file is not even parsed.
\<close>

theorem run_velveth_never_requests_report:
  "isl (fst (run_velveth self w ctx params)) \<and>
   CallCreateReport args \<notin> set (snd (run_velveth self w ctx params)) \<and>
   parse_fasta sample_world ''/kb/module/work/tmp/velvet_out/final.contigs.fa'' =
     Inr [''ACGTACGT'', ''ACGT''] \<and>
   run_velveth sample_service sample_world sample_ctx sample_params =
     (Inl (KeyError (VStr ''out_fodler'')), [])"
proof -
  have ok: "process_params sample_params = Inr ()"
    by (simp add: process_params_ok_iff sample_params_def py_in_def has_int_def has_list_def)
  have b: "run_velveth sample_service sample_world sample_ctx sample_params =
     (Inl (KeyError (VStr ''out_fodler'')), [])"
    by (simp add: run_velveth_prefix ok) (simp add: sample_ctx_def sample_params_def py_in_def)
  have c: "parse_fasta sample_world ''/kb/module/work/tmp/velvet_out/final.contigs.fa'' =
     Inr [''ACGTACGT'', ''ACGT'']"
    by (simp add: sample_world_def)
  from b c show ?thesis
    by (simp add: run_velveth_never_returns run_velveth_trace)
qed

section \<open>Properties of the velvetg operation\<close>

text \<open>
  C6. The claim is that \<^verbatim>\<open>run_velvetg\<close> returns a result with the two report fields. Its
  body is empty, so the check of the return value reads a name that nothing binds, and
  every call raises \<open>NameError\<close>.
\<close>

theorem run_velvetg_raises:
  "run_velvetg self w ctx params = (Inl (NameError ''output''), [])"
  by (simp add: run_velvetg_def global_name_unbound bind_x_simps)

end
